theory Spec2Isabelle
  imports Main
begin

section \<open>Data model (types/index.ts)\<close>

text \<open>
  Instants are milliseconds since the epoch (\<open>Date.getTime()\<close>), as integers; a
  \<open>Timestamp\<close> is represented by the instant its \<open>toDate()\<close> returns. Instants are taken
  inside the range of \<open>Date\<close> (\<open>maxTime\<close> below), far enough from its ends for the sums
  that the handlers compute to stay inside it. A date-valued
  document field is declared \<open>any\<close> in the source and is written in three shapes: a Firestore
  \<open>Timestamp\<close> (from \<open>serverTimestamp()\<close>), an ISO-8601 string (from \<open>toISOString()\<close>) and
  \<open>null\<close>; a field that is missing from a map reads as \<open>undefined\<close>. An ISO string is
  represented by the instant it denotes (\<open>new Date(d.toISOString()).getTime() = d.getTime()\<close>).
\<close>

datatype dateValue = Undefined | Null | Timestamp int | IsoString int

datatype bookStatus =
    available | issued | donated_pending_approval | donated_approved
  | lost | maintenance | issue_requested | return_requested

datatype bookStatusVariant =
    v_available | v_issued | v_overdue | v_due_soon | v_pending_approval | v_donated
  | v_lost | v_maintenance | v_issue_requested | v_return_requested

datatype transactionType =
    issue | return | donate_request | donate_approve | donate_reject | fine_paid
  | renewal | issue_request | issue_reject | return_request | return_reject

datatype role = r_admin | r_user

record user =
  user_id :: string
  email :: "string option"
  role :: role
  name :: "string option"

record donatedBy =
  donorId :: string
  donorName :: string
  date :: dateValue

text \<open>
  \<open>issueDetails\<close> is a nested map of the stored document. An update through the field path
  \<open>"issueDetails.dueDate"\<close> can create the map with that single entry, so every entry of the
  map is optional in the stored data (\<open>None\<close> and \<open>Undefined\<close>: the key is missing).
\<close>

record issueDetails =
  userId :: "string option"
  userName :: "string option"
  issueDate :: dateValue
  dueDate :: dateValue
  returnedDate :: "string option"

text \<open>A top-level optional field that the code deletes, sets to \<open>null\<close> or sets to a map.\<close>

datatype 'a field = Absent | NullField | Present 'a

record bookData =
  title :: string
  author :: string
  isbn :: string
  coverImageUrl :: "string option"
  status :: bookStatus
  category :: "string option"
  publishedDate :: "string option"
  description :: "string option"
  donatedBy :: "donatedBy option"
  issueDetails :: "issueDetails field"
  tags :: "string list option"
  copies :: "int option"
  location :: "string option"
  dataAiHint :: "string option"

text \<open>A \<open>Book\<close> held by a screen: \<open>{ id: doc.id, ...doc.data() }\<close>.\<close>

record book =
  book_id :: string
  data :: bookData

text \<open>The argument of \<open>logTransaction\<close> (a \<open>Transaction\<close> without \<open>id\<close> and \<open>timestamp\<close>).\<close>

record transactionData =
  bookId :: string
  bookTitle :: string
  actorId :: "string option"
  actorName :: "string option"
  txType :: transactionType
  txDueDate :: "int option"
  txNotes :: "string option"

record "transaction" =
  entry :: transactionData
  timestamp :: int

record userDoc =
  doc_name :: "string option"
  doc_email :: "string option"

text \<open>
  The document store: the \<open>books\<close> and \<open>users\<close> collections keyed by document id, and the
  append-only \<open>transactions\<close> collection in the order of the appends.
\<close>

record db =
  books :: "string \<rightharpoonup> bookData"
  transactions :: "transaction list"
  users :: "string \<rightharpoonup> userDoc"

section \<open>Environment of a handler call\<close>

text \<open>
  What a handler reads from outside its arguments: the module-level \<open>db\<close> handle (which may
  be null), the client clock (\<open>new Date()\<close>), the time the server substitutes for
  \<open>serverTimestamp()\<close> in the handler's own write and in the transaction entry, the local
  time zone (\<open>localTZA\<close>), whether each network call of the handler succeeds (the write to \<open>books\<close>, the
  append to \<open>transactions\<close>, the read of \<open>users\<close>), the id generated by \<open>addDoc\<close> for
  a new book, and library behaviour that the
  repository does not fix: the \<open>ignoreUndefinedProperties\<close> setting of the store, the
  result of \<open>new Date(x).getTime()\<close> on a \<open>Timestamp\<close> object (\<open>None\<close> is NaN),
  \<open>toLocaleDateString\<close> and \<open>encodeURIComponent\<close>.

  The time zone is the function \<open>LocalTZA(t, isUTC)\<close> of ECMAScript: the offset of local
  time from UTC in milliseconds, at the UTC instant \<open>t\<close> when \<open>isUTC\<close> holds and at the local
  time value \<open>t\<close> otherwise. It may change with \<open>t\<close> (daylight saving).
\<close>

record env =
  dbReady :: bool
  now :: int
  serverNow :: int
  logTime :: int
  localTZA :: "int \<Rightarrow> bool \<Rightarrow> int"
  writeOk :: bool
  logOk :: bool
  readOk :: bool
  newDocId :: string
  ignoreUndefinedProperties :: bool
  dateOfTimestampObject :: "int \<Rightarrow> int option"
  toLocaleDateString :: "int \<Rightarrow> string"
  encodeURIComponent :: "string \<Rightarrow> string"

section \<open>Dates\<close>

definition msPerDay :: int where
  "msPerDay = 1000 * 60 * 60 * 24"


text \<open>\<open>LocalTime(t)\<close> and \<open>UTC(t)\<close> of ECMAScript.\<close>

definition LocalTime :: "env \<Rightarrow> int \<Rightarrow> int" where
  "LocalTime e t = t + localTZA e t True"

definition UTC :: "env \<Rightarrow> int \<Rightarrow> int" where
  "UTC e t = t - localTZA e t False"

text \<open>
  \<open>d.setDate(d.getDate() + n)\<close>: with \<open>t = LocalTime(d)\<close>, the new time value is
  \<open>UTC(MakeDate(MakeDay(YearFromTime(t), MonthFromTime(t), DateFromTime(t) + n),
  TimeWithinDay(t)))\<close>, and that day is \<open>Day(t) + n\<close>: the same local time of day, \<open>n\<close>
  local calendar days later.
\<close>

definition addDays :: "env \<Rightarrow> int \<Rightarrow> int \<Rightarrow> int" where
  "addDays e t n = UTC e (LocalTime e t + n * msPerDay)"

text \<open>The number of the local calendar day that holds the instant \<open>t\<close>: \<open>Day(LocalTime(t))\<close>.\<close>

definition localDay :: "env \<Rightarrow> int \<Rightarrow> int" where
  "localDay e t = LocalTime e t div msPerDay"

text \<open>\<open>d.setHours(0, 0, 0, 0)\<close>: local midnight of the day of \<open>t\<close>.\<close>

definition startOfDay :: "env \<Rightarrow> int \<Rightarrow> int" where
  "startOfDay e t = UTC e (localDay e t * msPerDay)"

text \<open>
  The proleptic Gregorian calendar: the year, the month (1 to 12) and the day of the month
  of a day number, and \<open>MakeDay\<close>, the day number of the \<open>d\<close>-th day counted from the first
  of a month.
\<close>

definition civilFromDay :: "int \<Rightarrow> int \<times> int \<times> int" where
  "civilFromDay day =
     (let z = day + 719468;
          era = z div 146097;
          doe = z mod 146097;
          yoe = (doe - doe div 1460 + doe div 36524 - doe div 146096) div 365;
          doy = doe - (365 * yoe + yoe div 4 - yoe div 100);
          mp = (5 * doy + 2) div 153;
          d = doy - (153 * mp + 2) div 5 + 1;
          m = (if mp < 10 then mp + 3 else mp - 9);
          y = yoe + era * 400 + (if m \<le> 2 then 1 else 0)
      in (y, m, d))"

definition MakeDay :: "int \<Rightarrow> int \<Rightarrow> int \<Rightarrow> int" where
  "MakeDay year m d =
     (let y = (if m \<le> 2 then year - 1 else year);
          era = y div 400;
          yoe = y mod 400;
          doy = (153 * (if m > 2 then m - 3 else m + 9) + 2) div 5 + d - 1;
          doe = yoe * 365 + yoe div 4 - yoe div 100 + doy
      in era * 146097 + doe - 719468)"

text \<open>The local time values of the years 0 to 99: \<open>0 \<le> YearFromTime(t) \<le> 99\<close>.\<close>

definition yearBelow100 :: "int \<Rightarrow> bool" where
  "yearBelow100 t = (- 62167219200000 \<le> t \<and> t < - 59011459200000)"

text \<open>
  \<open>new Date(d.getFullYear(), d.getMonth(), d.getDate())\<close>: local midnight of the day of \<open>t\<close>.
  The constructor reads a year from 0 to 99 as 1900 plus that year.
\<close>

definition dateOnly :: "env \<Rightarrow> int \<Rightarrow> int" where
  "dateOnly e t =
     (if yearBelow100 (LocalTime e t) then
        (case civilFromDay (localDay e t) of
           (y, m, d) \<Rightarrow> UTC e (MakeDay (1900 + y) m d * msPerDay))
      else startOfDay e t)"

text \<open>
  \<open>Math.ceil(diffTime / (1000 * 60 * 60 * 24))\<close>, the ceiling of the exact quotient. (The
  sign of a zero result does not matter to the comparisons that follow: \<open>-0 < 0\<close> is false.)
\<close>

definition ceilDays :: "int \<Rightarrow> int" where
  "ceilDays diffTime = - ((- diffTime) div msPerDay)"

text \<open>\<open>v.toDate ? v.toDate() : new Date(v)\<close> for a truthy \<open>v\<close>; \<open>None\<close> when \<open>v\<close> is falsy.\<close>

definition toDateOrParse :: "dateValue \<Rightarrow> int option" where
  "toDateOrParse v =
     (case v of Timestamp t \<Rightarrow> Some t | IsoString t \<Rightarrow> Some t | Null \<Rightarrow> None | Undefined \<Rightarrow> None)"

text \<open>\<open>new Date(v).getTime()\<close>; \<open>None\<close> is NaN. \<open>new Date(null)\<close> is the epoch.\<close>

definition newDate :: "env \<Rightarrow> dateValue \<Rightarrow> int option" where
  "newDate e v =
     (case v of IsoString t \<Rightarrow> Some t | Null \<Rightarrow> Some 0 | Undefined \<Rightarrow> None
      | Timestamp t \<Rightarrow> dateOfTimestampObject e t)"

section \<open>Status classification\<close>

subsection \<open>StatusPill.tsx: getStatusDetails\<close>

text \<open>
  The variant that \<open>getStatusDetails\<close> computes before its \<open>switch\<close> chooses the text and
  the colours. Every comparison with NaN is false, so an invalid due date falls to the
  last branch.
\<close>

definition statusAsVariant :: "bookStatus \<Rightarrow> bookStatusVariant" where
  "statusAsVariant s =
     (case s of available \<Rightarrow> v_available | issued \<Rightarrow> v_issued
      | donated_pending_approval \<Rightarrow> v_pending_approval | donated_approved \<Rightarrow> v_available
      | lost \<Rightarrow> v_lost | maintenance \<Rightarrow> v_maintenance
      | issue_requested \<Rightarrow> v_issue_requested | return_requested \<Rightarrow> v_return_requested)"

definition getStatusDetails :: "env \<Rightarrow> book \<Rightarrow> bookStatusVariant" where
  "getStatusDetails e b =
     (case issueDetails (data b) of
        Present d \<Rightarrow>
          if status (data b) = issued then
            (case newDate e (dueDate d) of
               None \<Rightarrow> v_issued
             | Some due \<Rightarrow>
                 let diffTime = due - now e; diffDays = ceilDays diffTime
                 in if diffDays < 0 then v_overdue
                    else if diffDays \<le> 3 then v_due_soon
                    else v_issued)
          else statusAsVariant (status (data b))
      | _ \<Rightarrow> statusAsVariant (status (data b)))"

subsection \<open>IssuedBooksTab.tsx: isBookOverdue and the list filter\<close>

definition isBookOverdue :: "env \<Rightarrow> book \<Rightarrow> bool" where
  "isBookOverdue e b =
     (case issueDetails (data b) of
        Present d \<Rightarrow>
          (case toDateOrParse (dueDate d) of
             Some due \<Rightarrow> status (data b) = issued \<and> dateOnly e due < dateOnly e (now e)
           | None \<Rightarrow> False)
      | _ \<Rightarrow> False)"

datatype listFilter = f_all | f_due_soon | f_overdue | f_return_requested

text \<open>
  The callback of \<open>userBooks.filter\<close>; \<open>matchesSearch\<close> is the result of the two
  \<open>includes\<close> tests on the title and the author.
\<close>

definition filterBook :: "env \<Rightarrow> bool \<Rightarrow> listFilter \<Rightarrow> book \<Rightarrow> bool" where
  "filterBook e matchesSearch flt b =
     (if \<not> matchesSearch then False
      else if flt = f_all then True
      else if flt = f_return_requested then status (data b) = return_requested
      else
        (case issueDetails (data b) of
           Present d \<Rightarrow>
             (case toDateOrParse (dueDate d) of
                None \<Rightarrow> False
              | Some due \<Rightarrow>
                  let today = startOfDay e (now e);
                      normalizedDueDate = dateOnly e due;
                      diffTime = normalizedDueDate - today;
                      diffDays = ceilDays diffTime
                  in if flt = f_overdue then diffDays < 0
                     else if flt = f_due_soon then diffDays \<ge> 0 \<and> diffDays \<le> 3
                     else True)
         | _ \<Rightarrow> False))"

section \<open>The document store (firebase/firestore)\<close>

datatype 'a result = Ok 'a | Threw

text \<open>
  \<open>updateDoc\<close> changes the named fields of an existing document and rejects when the
  document does not exist or the call fails; a rejected call changes nothing.
\<close>

definition updateDoc :: "env \<Rightarrow> string \<Rightarrow> (bookData \<Rightarrow> bookData) \<Rightarrow> db \<Rightarrow> db result" where
  "updateDoc e i f s =
     (case books s i of
        None \<Rightarrow> Threw
      | Some d \<Rightarrow> if writeOk e then Ok (s\<lparr>books := (books s)(i \<mapsto> f d)\<rparr>) else Threw)"

text \<open>\<open>deleteDoc\<close> succeeds whether or not the document exists.\<close>

definition deleteDoc :: "env \<Rightarrow> string \<Rightarrow> db \<Rightarrow> db result" where
  "deleteDoc e i s = (if writeOk e then Ok (s\<lparr>books := (books s)(i := None)\<rparr>) else Threw)"

text \<open>\<open>addDoc(collection(db, "books"), d)\<close>: a new document under a generated id.\<close>

definition addBook :: "env \<Rightarrow> bookData \<Rightarrow> db \<Rightarrow> db result" where
  "addBook e d s = (if writeOk e then Ok (s\<lparr>books := (books s)(newDocId e \<mapsto> d)\<rparr>) else Threw)"

text \<open>
  \<open>addDoc(collection(db, "transactions"), {...transactionData, timestamp: serverTimestamp()})\<close>.
  The store rejects a field whose value is \<open>undefined\<close> unless it was configured with
  \<open>ignoreUndefinedProperties\<close>, in which case the field is left out.
\<close>

definition addTransaction :: "env \<Rightarrow> transactionData \<Rightarrow> db \<Rightarrow> db result" where
  "addTransaction e td s =
     (if logOk e \<and> (ignoreUndefinedProperties e \<or> (actorId td \<noteq> None \<and> actorName td \<noteq> None))
      then Ok (s\<lparr>transactions := transactions s @ [\<lparr>entry = td, timestamp = logTime e\<rparr>]\<rparr>)
      else Threw)"

text \<open>What a screen reads back: \<open>{ id: doc.id, ...doc.data() }\<close>.\<close>

definition storedBook :: "db \<Rightarrow> string \<Rightarrow> book option" where
  "storedBook s i = map_option (\<lambda>d. \<lparr>book_id = i, data = d\<rparr>) (books s i)"

text \<open>The update \<open>{"issueDetails.dueDate": v}\<close> of a nested field.\<close>

definition setIssueDetailsDueDate :: "dateValue \<Rightarrow> bookData \<Rightarrow> bookData" where
  "setIssueDetailsDueDate v d =
     d\<lparr>issueDetails := Present
         (case issueDetails d of
            Present r \<Rightarrow> r\<lparr>dueDate := v\<rparr>
          | _ \<Rightarrow> \<lparr>userId = None, userName = None, issueDate = Undefined, dueDate = v,
                  returnedDate = None\<rparr>)\<rparr>"

section \<open>What a handler does, in program order\<close>

datatype toastVariant = Default | Destructive

datatype event =
    Toast string toastVariant
  | ConsoleError string
  | BookUpdated string
  | BookDeleted string
  | BookAdded string
  | TransactionAdded "transaction"
  | UncaughtTypeError

text \<open>\<open>a || b\<close> on an optional string: the empty string, \<open>null\<close> and \<open>undefined\<close> are falsy.\<close>

definition orElse :: "string option \<Rightarrow> string \<Rightarrow> string" where
  "orElse a b = (case a of None \<Rightarrow> b | Some x \<Rightarrow> if x = [] then b else x)"

definition sampleAdmin :: user where
  "sampleAdmin = \<lparr>user_id = ''admin001'', email = Some ''admin@pes.edu'', role = r_admin,
     name = Some ''Library Admin''\<rparr>"

definition adminName :: string where
  "adminName = orElse (name sampleAdmin) ''Admin''"

text \<open>The helper \<open>logTransaction\<close>, defined identically in every screen.\<close>

definition logTransaction :: "env \<Rightarrow> transactionData \<Rightarrow> db \<Rightarrow> db \<times> event list" where
  "logTransaction e td s =
     (if \<not> dbReady e then (s, [])
      else
        (case addTransaction e td s of
           Ok s' \<Rightarrow> (s', [TransactionAdded \<lparr>entry = td, timestamp = logTime e\<rparr>])
         | Threw \<Rightarrow> (s, [ConsoleError ''Error logging transaction:''])))"

text \<open>
  The body shared by the handlers: \<open>try { await <write>; await logTransaction(td);
  toast(ok) } catch (error) { console.error(errLog, error); toast(err) }\<close>. The argument \<open>w\<close>
  is the outcome of the write on the store \<open>s\<close>, \<open>wrote\<close> the event that records it.
\<close>

definition writeThenLog ::
  "env \<Rightarrow> db \<Rightarrow> db result \<Rightarrow> event \<Rightarrow> transactionData \<Rightarrow> string \<Rightarrow> string \<Rightarrow> string
     \<Rightarrow> db \<times> event list" where
  "writeThenLog e s w wrote td errLog errTitle okTitle =
     (case w of
        Threw \<Rightarrow> (s, [ConsoleError errLog, Toast errTitle Destructive])
      | Ok s1 \<Rightarrow>
          (case logTransaction e td s1 of
             (s2, logged) \<Rightarrow> (s2, wrote # logged @ [Toast okTitle Default])))"

section \<open>User portal\<close>

subsection \<open>BrowseBooksTab.tsx\<close>

definition handleRequestIssue ::
  "env \<Rightarrow> user option \<Rightarrow> string \<Rightarrow> string \<Rightarrow> db \<Rightarrow> db \<times> event list" where
  "handleRequestIssue e currentUser bookId' bookTitle' s =
     (case currentUser of
        None \<Rightarrow> (s, [Toast ''Login Required'' Destructive])
      | Some u \<Rightarrow>
          if \<not> dbReady e then (s, [Toast ''Error'' Destructive])
          else
            let requestDetails =
                  \<lparr>userId = Some (user_id u),
                   userName = Some (orElse (name u) (orElse (email u) ''User'')),
                   issueDate = Timestamp (serverNow e),
                   dueDate = Null,
                   returnedDate = None\<rparr>
            in writeThenLog e s
                 (updateDoc e bookId'
                    (\<lambda>d. d\<lparr>status := issue_requested, issueDetails := Present requestDetails\<rparr>) s)
                 (BookUpdated bookId')
                 \<lparr>bookId = bookId', bookTitle = bookTitle',
                  actorId = Some (user_id u),
                  actorName = Some (orElse (name u) (orElse (email u) ''User'')),
                  txType = issue_request, txDueDate = None, txNotes = None\<rparr>
                 ''Error requesting book issue:'' ''Error Sending Request'' ''Request Sent!'')"

text \<open>The \<open>disabled\<close> attribute of the "Request to Issue" button of a listed book.\<close>

definition requestIssueDisabled :: "user option \<Rightarrow> book \<Rightarrow> bool" where
  "requestIssueDisabled currentUser b =
     (currentUser = None \<or>
      (status (data b) \<noteq> available \<and> status (data b) \<noteq> donated_approved))"

subsection \<open>IssuedBooksTab.tsx\<close>

definition RENEWAL_PERIOD_DAYS :: int where
  "RENEWAL_PERIOD_DAYS = 7"

text \<open>\<open>book.issueDetails?.dueDate\<close>\<close>

definition dueDateOf :: "book \<Rightarrow> dateValue" where
  "dueDateOf b = (case issueDetails (data b) of Present d \<Rightarrow> dueDate d | _ \<Rightarrow> Undefined)"

definition handleRenewBook ::
  "env \<Rightarrow> user option \<Rightarrow> book list \<Rightarrow> string \<Rightarrow> string \<Rightarrow> db \<Rightarrow> db \<times> event list" where
  "handleRenewBook e currentUser userBooks bookId' bookTitle' s =
     (case currentUser of
        None \<Rightarrow> (s, [Toast ''Error'' Destructive])
      | Some u \<Rightarrow>
          if \<not> dbReady e then (s, [Toast ''Error'' Destructive])
          else
            (case find (\<lambda>b. book_id b = bookId') userBooks of
               None \<Rightarrow> (s, [Toast ''Renewal Failed'' Destructive])
             | Some bookToRenew \<Rightarrow>
                 (case toDateOrParse (dueDateOf bookToRenew) of
                    None \<Rightarrow> (s, [Toast ''Renewal Failed'' Destructive])
                  | Some currentDueDate \<Rightarrow>
                      if isBookOverdue e bookToRenew
                      then (s, [Toast ''Renewal Not Allowed'' Destructive])
                      else
                        let newDueDate = addDays e currentDueDate RENEWAL_PERIOD_DAYS
                        in writeThenLog e s
                             (updateDoc e bookId'
                                (setIssueDetailsDueDate (Timestamp (serverNow e))) s)
                             (BookUpdated bookId')
                             \<lparr>bookId = bookId', bookTitle = bookTitle',
                              actorId = Some (user_id u),
                              actorName = Some (orElse (name u) (orElse (email u) ''User'')),
                              txType = renewal, txDueDate = Some newDueDate,
                              txNotes = Some (''Renewed from '' @ toLocaleDateString e currentDueDate
                                @ '' to '' @ toLocaleDateString e newDueDate)\<rparr>
                             ''Error renewing book:'' ''Renewal Failed'' ''Book Renewed'')))"

definition handleRequestReturn ::
  "env \<Rightarrow> user option \<Rightarrow> string \<Rightarrow> string \<Rightarrow> db \<Rightarrow> db \<times> event list" where
  "handleRequestReturn e currentUser bookId' bookTitle' s =
     (case currentUser of
        None \<Rightarrow> (s, [Toast ''Error'' Destructive])
      | Some u \<Rightarrow>
          if \<not> dbReady e then (s, [Toast ''Error'' Destructive])
          else
            writeThenLog e s
              (updateDoc e bookId' (\<lambda>d. d\<lparr>status := return_requested\<rparr>) s)
              (BookUpdated bookId')
              \<lparr>bookId = bookId', bookTitle = bookTitle',
               actorId = Some (user_id u),
               actorName = Some (orElse (name u) (orElse (email u) ''User'')),
               txType = return_request, txDueDate = None,
               txNotes = Some (''User requested to return '' @ [CHR 0x27] @ bookTitle' @ [CHR 0x27])\<rparr>
              ''Error requesting book return:'' ''Request Failed'' ''Return Requested'')"

subsection \<open>DonateBookTab.tsx\<close>

record donationForm =
  f_title :: string
  f_author :: string
  f_isbn :: string
  f_category :: string
  f_publishedDate :: string
  f_description :: string
  f_coverImageUrl :: string

definition handleSubmit :: "env \<Rightarrow> user option \<Rightarrow> donationForm \<Rightarrow> db \<Rightarrow> db \<times> event list" where
  "handleSubmit e currentUser form s =
     (case currentUser of
        None \<Rightarrow> (s, [Toast ''Login Required'' Destructive])
      | Some u \<Rightarrow>
          if \<not> dbReady e then (s, [Toast ''Error'' Destructive])
          else
            let newBookData =
                  \<lparr>title = f_title form, author = f_author form, isbn = f_isbn form,
                   coverImageUrl = Some
                     (if f_coverImageUrl form \<noteq> [] then f_coverImageUrl form
                      else ''https://placehold.co/300x450.png?text=''
                             @ encodeURIComponent e (f_title form)),
                   status = donated_pending_approval,
                   category = Some (f_category form),
                   publishedDate = Some (f_publishedDate form),
                   description = Some (f_description form),
                   donatedBy = Some
                     \<lparr>donorId = user_id u,
                      donorName = orElse (name u) (orElse (email u) ''Anonymous User''),
                      date = Timestamp (serverNow e)\<rparr>,
                   issueDetails = Absent,
                   tags = None, copies = None, location = None, dataAiHint = None\<rparr>
            in writeThenLog e s
                 (addBook e newBookData s)
                 (BookAdded (newDocId e))
                 \<lparr>bookId = newDocId e, bookTitle = f_title form,
                  actorId = Some (user_id u),
                  actorName = Some (orElse (name u) (orElse (email u) ''Anonymous User'')),
                  txType = donate_request, txDueDate = None,
                  txNotes = Some (''User submitted donation for '' @ [CHR 0x27] @ f_title form
                    @ [CHR 0x27])\<rparr>
                 ''Donation submission error:'' ''Submission Failed'' ''Donation Submitted'')"

section \<open>Admin portal\<close>

subsection \<open>IssueRequestsTab.tsx\<close>

text \<open>
  \<open>book.issueDetails.issueDate.toDate()\<close> is evaluated before the \<open>try\<close>: on a value without
  a \<open>toDate\<close> method the handler ends with an uncaught \<open>TypeError\<close>.
\<close>

definition handleApproveRequest :: "env \<Rightarrow> book \<Rightarrow> db \<Rightarrow> db \<times> event list" where
  "handleApproveRequest e b s =
     (case issueDetails (data b) of
        Present details \<Rightarrow>
          if \<not> dbReady e then (s, [Toast ''Error'' Destructive])
          else
            (case issueDate details of
               Timestamp issueDate' \<Rightarrow>
                 let dueDate' = addDays e issueDate' 14
                 in writeThenLog e s
                      (updateDoc e (book_id b)
                         (\<lambda>d. setIssueDetailsDueDate (IsoString dueDate') (d\<lparr>status := issued\<rparr>)) s)
                      (BookUpdated (book_id b))
                      \<lparr>bookId = book_id b, bookTitle = title (data b),
                       actorId = userId details, actorName = userName details,
                       txType = issue, txDueDate = Some dueDate',
                       txNotes = Some (''Request approved by Admin: '' @ adminName)\<rparr>
                      ''Error approving request:'' ''Error Approving Request'' ''Request Approved''
             | _ \<Rightarrow> (s, [UncaughtTypeError]))
      | _ \<Rightarrow> (s, [Toast ''Error'' Destructive]))"

definition handleRejectRequest :: "env \<Rightarrow> book \<Rightarrow> db \<Rightarrow> db \<times> event list" where
  "handleRejectRequest e b s =
     (case issueDetails (data b) of
        Present details \<Rightarrow>
          if \<not> dbReady e then (s, [Toast ''Error'' Destructive])
          else
            writeThenLog e s
              (updateDoc e (book_id b)
                 (\<lambda>d. d\<lparr>status := available, issueDetails := NullField\<rparr>) s)
              (BookUpdated (book_id b))
              \<lparr>bookId = book_id b, bookTitle = title (data b),
               actorId = userId details, actorName = userName details,
               txType = issue_reject, txDueDate = None,
               txNotes = Some (''Request rejected by Admin: '' @ adminName)\<rparr>
              ''Error rejecting request:'' ''Error Rejecting Request'' ''Request Rejected''
      | _ \<Rightarrow> (s, [Toast ''Error'' Destructive]))"

subsection \<open>ReturnRequestsTab.tsx\<close>

definition handleApproveReturn :: "env \<Rightarrow> book \<Rightarrow> db \<Rightarrow> db \<times> event list" where
  "handleApproveReturn e b s =
     (case issueDetails (data b) of
        Present details \<Rightarrow>
          if \<not> dbReady e then (s, [Toast ''Error'' Destructive])
          else
            writeThenLog e s
              (updateDoc e (book_id b)
                 (\<lambda>d. d\<lparr>status := available, issueDetails := Absent\<rparr>) s)
              (BookUpdated (book_id b))
              \<lparr>bookId = book_id b, bookTitle = title (data b),
               actorId = userId details, actorName = userName details,
               txType = return, txDueDate = None,
               txNotes = Some (''Return approved by Admin: '' @ adminName)\<rparr>
              ''Error approving return:'' ''Error Approving Return'' ''Return Approved''
      | _ \<Rightarrow> (s, [Toast ''Error'' Destructive]))"

definition handleRejectReturn :: "env \<Rightarrow> book \<Rightarrow> db \<Rightarrow> db \<times> event list" where
  "handleRejectReturn e b s =
     (case issueDetails (data b) of
        Present details \<Rightarrow>
          if \<not> dbReady e then (s, [Toast ''Error'' Destructive])
          else
            writeThenLog e s
              (updateDoc e (book_id b) (\<lambda>d. d\<lparr>status := issued\<rparr>) s)
              (BookUpdated (book_id b))
              \<lparr>bookId = book_id b, bookTitle = title (data b),
               actorId = userId details, actorName = userName details,
               txType = return_reject, txDueDate = None,
               txNotes = Some (''Return request rejected by Admin: '' @ adminName)\<rparr>
              ''Error rejecting return:'' ''Error Rejecting Return'' ''Return Rejected''
      | _ \<Rightarrow> (s, [Toast ''Error'' Destructive]))"

subsection \<open>DonationApprovalTab.tsx\<close>

text \<open>\<open>book.donatedBy?.userId || 'unknown_donor'\<close> and \<open>book.donatedBy?.userName || 'Unknown Donor'\<close>\<close>

definition donorIdOf :: "book \<Rightarrow> string" where
  "donorIdOf b = orElse (map_option donorId (donatedBy (data b))) ''unknown_donor''"

definition donorNameOf :: "book \<Rightarrow> string" where
  "donorNameOf b = orElse (map_option donorName (donatedBy (data b))) ''Unknown Donor''"

definition handleApproveDonation :: "env \<Rightarrow> book \<Rightarrow> db \<Rightarrow> db \<times> event list" where
  "handleApproveDonation e b s =
     (if \<not> dbReady e then (s, [Toast ''Error'' Destructive])
      else
        writeThenLog e s
          (updateDoc e (book_id b) (\<lambda>d. d\<lparr>status := available\<rparr>) s)
          (BookUpdated (book_id b))
          \<lparr>bookId = book_id b, bookTitle = title (data b),
           actorId = Some (donorIdOf b), actorName = Some (donorNameOf b),
           txType = donate_approve, txDueDate = None,
           txNotes = Some (''Donation approved by Admin: '' @ adminName)\<rparr>
          ''Error approving donation:'' ''Error Approving Donation'' ''Donation Approved'')"

definition handleRejectDonation :: "env \<Rightarrow> book \<Rightarrow> db \<Rightarrow> db \<times> event list" where
  "handleRejectDonation e b s =
     (if \<not> dbReady e then (s, [Toast ''Error'' Destructive])
      else
        writeThenLog e s
          (deleteDoc e (book_id b) s)
          (BookDeleted (book_id b))
          \<lparr>bookId = book_id b, bookTitle = title (data b),
           actorId = Some (donorIdOf b), actorName = Some (donorNameOf b),
           txType = donate_reject, txDueDate = None,
           txNotes = Some (''Donation rejected by Admin: '' @ adminName)\<rparr>
          ''Error rejecting donation:'' ''Error Rejecting Donation'' ''Donation Rejected'')"

subsection \<open>BookManagementTab.tsx\<close>

text \<open>
  The argument of \<open>handleSaveBook\<close>, of type \<open>Omit<Book, 'id' | 'issueDetails' | 'donatedBy'> | Book\<close>:
  the \<open>id\<close> key when the object has one, and the other keys, where \<open>None\<close> and \<open>Absent\<close>
  stand for a key that the object does not have. (An \<open>id\<close> key that is present and empty
  sends the object to the \<open>addDoc\<close> branch; the stored copy of that key is not represented.)
\<close>

record bookFormData =
  fd_id :: "string option"
  fd_data :: bookData

definition keep :: "'a option \<Rightarrow> 'a option \<Rightarrow> 'a option" where
  "keep new old = (case new of None \<Rightarrow> old | Some v \<Rightarrow> Some v)"

text \<open>\<open>updateDoc(bookRef, dataToUpdate)\<close>: the keys of \<open>dataToUpdate\<close> replace the stored ones.\<close>

definition mergeFields :: "bookData \<Rightarrow> bookData \<Rightarrow> bookData" where
  "mergeFields u d =
     \<lparr>title = title u, author = author u, isbn = isbn u,
      coverImageUrl = keep (coverImageUrl u) (coverImageUrl d),
      status = status u,
      category = keep (category u) (category d),
      publishedDate = keep (publishedDate u) (publishedDate d),
      description = keep (description u) (description d),
      donatedBy = keep (donatedBy u) (donatedBy d),
      issueDetails = (case issueDetails u of Absent \<Rightarrow> issueDetails d | x \<Rightarrow> x),
      tags = keep (tags u) (tags d),
      copies = keep (copies u) (copies d),
      location = keep (location u) (location d),
      dataAiHint = keep (dataAiHint u) (dataAiHint d)\<rparr>"

definition handleSaveBook :: "env \<Rightarrow> bookFormData \<Rightarrow> db \<Rightarrow> db \<times> event list" where
  "handleSaveBook e bookData' s =
     (if \<not> dbReady e then (s, [Toast ''Error'' Destructive])
      else if orElse (fd_id bookData') [] \<noteq> [] then
        (case updateDoc e (orElse (fd_id bookData') []) (mergeFields (fd_data bookData')) s of
           Ok s1 \<Rightarrow> (s1, [BookUpdated (orElse (fd_id bookData') []), Toast ''Book Updated'' Default])
         | Threw \<Rightarrow> (s, [ConsoleError ''Error saving book:'', Toast ''Error Saving Book'' Destructive]))
      else
        (case addBook e ((fd_data bookData')\<lparr>issueDetails := Absent, donatedBy := None\<rparr>) s of
           Ok s1 \<Rightarrow> (s1, [BookAdded (newDocId e), Toast ''Book Added'' Default])
         | Threw \<Rightarrow> (s, [ConsoleError ''Error saving book:'', Toast ''Error Saving Book'' Destructive])))"

definition handleDeleteBook :: "env \<Rightarrow> string \<Rightarrow> string \<Rightarrow> db \<Rightarrow> db \<times> event list" where
  "handleDeleteBook e bookId' bookTitle' s =
     (if \<not> dbReady e then (s, [Toast ''Error'' Destructive])
      else
        (case deleteDoc e bookId' s of
           Ok s1 \<Rightarrow> (s1, [BookDeleted bookId', Toast ''Book Deleted'' Default])
         | Threw \<Rightarrow> (s, [ConsoleError ''Error deleting book:'', Toast ''Error Deleting Book'' Destructive])))"

text \<open>
  The name recorded by \<open>handleConfirmIssueBook\<close> and the warnings of the lookup: the name
  typed by the admin, or else the \<open>users\<close> document of the given id.
\<close>

definition resolveUserName :: "env \<Rightarrow> string \<Rightarrow> string \<Rightarrow> db \<Rightarrow> string \<times> event list" where
  "resolveUserName e issueToUserId issueToUserName s =
     (if issueToUserName \<noteq> [] then (issueToUserName, [])
      else if \<not> readOk e then
        (''Unknown User'', [ConsoleError ''Error fetching user details:'', Toast ''Warning'' Default])
      else
        (case users s issueToUserId of
           Some userDocSnap \<Rightarrow>
             (orElse (doc_name userDocSnap) (orElse (doc_email userDocSnap) ''User''), [])
         | None \<Rightarrow> (''Unknown User'', [Toast ''Warning'' Default])))"

definition handleConfirmIssueBook ::
  "env \<Rightarrow> book option \<Rightarrow> string \<Rightarrow> string \<Rightarrow> db \<Rightarrow> db \<times> event list" where
  "handleConfirmIssueBook e issuingBook issueToUserId issueToUserName s =
     (case issuingBook of
        None \<Rightarrow> (s, [Toast ''Error'' Destructive])
      | Some b \<Rightarrow>
          if \<not> dbReady e \<or> issueToUserId = [] then (s, [Toast ''Error'' Destructive])
          else
            (case resolveUserName e issueToUserId issueToUserName s of
               (finalUserName, warnings) \<Rightarrow>
                 let issueDate' = now e;
                     dueDate' = addDays e issueDate' 14;
                     issueDetails' =
                       \<lparr>userId = Some issueToUserId, userName = Some finalUserName,
                        issueDate = Timestamp (serverNow e), dueDate = IsoString dueDate',
                        returnedDate = None\<rparr>
                 in (case writeThenLog e s
                           (updateDoc e (book_id b)
                              (\<lambda>d. d\<lparr>status := issued, issueDetails := Present issueDetails'\<rparr>) s)
                           (BookUpdated (book_id b))
                           \<lparr>bookId = book_id b, bookTitle = title (data b),
                            actorId = Some issueToUserId, actorName = Some finalUserName,
                            txType = issue, txDueDate = Some dueDate',
                            txNotes = Some (''Issued by Admin: '' @ adminName)\<rparr>
                           ''Error issuing book:'' ''Error Issuing Book'' ''Book Issued'' of
                       (s', evs) \<Rightarrow> (s', warnings @ evs))))"

text \<open>\<open>book.issueDetails?.userId\<close> and \<open>book.issueDetails?.userName\<close>\<close>

definition holderIdOf :: "book \<Rightarrow> string option" where
  "holderIdOf b = (case issueDetails (data b) of Present d \<Rightarrow> userId d | _ \<Rightarrow> None)"

definition holderNameOf :: "book \<Rightarrow> string option" where
  "holderNameOf b = (case issueDetails (data b) of Present d \<Rightarrow> userName d | _ \<Rightarrow> None)"

definition handleReturnBook :: "env \<Rightarrow> book \<Rightarrow> db \<Rightarrow> db \<times> event list" where
  "handleReturnBook e b s =
     (if \<not> dbReady e then (s, [Toast ''Error'' Destructive])
      else
        writeThenLog e s
          (updateDoc e (book_id b) (\<lambda>d. d\<lparr>status := available, issueDetails := Absent\<rparr>) s)
          (BookUpdated (book_id b))
          \<lparr>bookId = book_id b, bookTitle = title (data b),
           actorId = Some (orElse (holderIdOf b) ''unknown_user_return''),
           actorName = Some (orElse (holderNameOf b) ''Unknown User''),
           txType = return, txDueDate = None,
           txNotes = Some (''Returned to Admin: '' @ adminName)\<rparr>
          ''Error returning book:'' ''Error Returning Book'' ''Book Returned'')"

section \<open>The operations of the two portals\<close>

text \<open>
  One constructor for each handler that writes to the store, with the arguments and the
  screen state the handler reads.
\<close>

datatype action =
    RequestIssue "user option" string string
  | RenewBook "user option" "book list" string string
  | RequestReturn "user option" string string
  | SubmitDonation "user option" donationForm
  | ApproveRequest book
  | RejectRequest book
  | ApproveReturn book
  | RejectReturn book
  | ApproveDonation book
  | RejectDonation book
  | ConfirmIssueBook "book option" string string
  | ReturnBook book
  | SaveBook bookFormData
  | DeleteBook string string

fun perform :: "env \<Rightarrow> action \<Rightarrow> db \<Rightarrow> db \<times> event list" where
  "perform e (RequestIssue cu i t) s = handleRequestIssue e cu i t s"
| "perform e (RenewBook cu bs i t) s = handleRenewBook e cu bs i t s"
| "perform e (RequestReturn cu i t) s = handleRequestReturn e cu i t s"
| "perform e (SubmitDonation cu f) s = handleSubmit e cu f s"
| "perform e (ApproveRequest b) s = handleApproveRequest e b s"
| "perform e (RejectRequest b) s = handleRejectRequest e b s"
| "perform e (ApproveReturn b) s = handleApproveReturn e b s"
| "perform e (RejectReturn b) s = handleRejectReturn e b s"
| "perform e (ApproveDonation b) s = handleApproveDonation e b s"
| "perform e (RejectDonation b) s = handleRejectDonation e b s"
| "perform e (ConfirmIssueBook b i n) s = handleConfirmIssueBook e b i n s"
| "perform e (ReturnBook b) s = handleReturnBook e b s"
| "perform e (SaveBook d) s = handleSaveBook e d s"
| "perform e (DeleteBook i t) s = handleDeleteBook e i t s"

text \<open>The handlers that append to the transaction log (all but the catalogue edits).\<close>

fun logsTransaction :: "action \<Rightarrow> bool" where
  "logsTransaction (SaveBook _) = False"
| "logsTransaction (DeleteBook _ _) = False"
| "logsTransaction _ = True"

subsection \<open>Kinds of event\<close>

definition isWrite :: "event \<Rightarrow> bool" where
  "isWrite ev =
     (case ev of BookUpdated _ \<Rightarrow> True | BookDeleted _ \<Rightarrow> True | BookAdded _ \<Rightarrow> True
      | _ \<Rightarrow> False)"

definition isLogged :: "event \<Rightarrow> bool" where
  "isLogged ev = (case ev of TransactionAdded _ \<Rightarrow> True | _ \<Rightarrow> False)"

definition isToast :: "event \<Rightarrow> bool" where
  "isToast ev = (case ev of Toast _ _ \<Rightarrow> True | _ \<Rightarrow> False)"

definition isFailureToast :: "event \<Rightarrow> bool" where
  "isFailureToast ev = (case ev of Toast _ Destructive \<Rightarrow> True | _ \<Rightarrow> False)"

section \<open>A small library, for evaluating the handlers\<close>

text \<open>
  The clock reads day 5 of the epoch, midnight UTC, in the UTC time zone; every network
  call succeeds.
\<close>

definition env0 :: env where
  "env0 = \<lparr>dbReady = True, now = 432000000, serverNow = 432000123, logTime = 432000456,
     localTZA = (\<lambda>_ _. 0), writeOk = True, logOk = True, readOk = True, newDocId = ''b2'',
     ignoreUndefinedProperties = False, dateOfTimestampObject = (\<lambda>_. None),
     toLocaleDateString = (\<lambda>_. []), encodeURIComponent = (\<lambda>x. x)\<rparr>"

definition alice :: user where
  "alice = \<lparr>user_id = ''u1'', email = Some ''alice@pes.edu'', role = r_user,
     name = Some ''Alice''\<rparr>"

text \<open>Requested at the epoch, due on day 10 at midnight.\<close>

definition details0 :: issueDetails where
  "details0 = \<lparr>userId = Some ''u1'', userName = Some ''Alice'', issueDate = Timestamp 0,
     dueDate = IsoString 864000000, returnedDate = None\<rparr>"

definition data0 :: bookData where
  "data0 = \<lparr>title = ''T'', author = ''A'', isbn = ''1'', coverImageUrl = None, status = issued,
     category = None, publishedDate = None, description = None, donatedBy = None,
     issueDetails = Present details0, tags = None, copies = None, location = None,
     dataAiHint = None\<rparr>"

definition donor0 :: donatedBy where
  "donor0 = \<lparr>donorId = ''u1'', donorName = ''Alice'', date = Timestamp 0\<rparr>"

text \<open>The store that holds the one book \<open>b1\<close> with the data \<open>d\<close>, and the screen's copy of it.\<close>

definition store0 :: "bookData \<Rightarrow> db" where
  "store0 d = \<lparr>books = [''b1'' \<mapsto> d], transactions = [], users = Map.empty\<rparr>"

definition book0 :: "bookData \<Rightarrow> book" where
  "book0 d = \<lparr>book_id = ''b1'', data = d\<rparr>"

text \<open>The same book while its issue is requested, as a pending donation, and due at \<open>t\<close>.\<close>

definition requested0 :: bookData where
  "requested0 = data0\<lparr>status := issue_requested,
     issueDetails := Present (details0\<lparr>dueDate := Null\<rparr>)\<rparr>"

definition donation0 :: bookData where
  "donation0 = data0\<lparr>status := donated_pending_approval, issueDetails := Absent,
     donatedBy := Some donor0\<rparr>"

definition dueOn :: "int \<Rightarrow> bookData" where
  "dueOn t = data0\<lparr>issueDetails := Present (details0\<lparr>dueDate := IsoString t\<rparr>)\<rparr>"

definition requestedAt :: "int \<Rightarrow> bookData" where
  "requestedAt t = data0\<lparr>status := issue_requested,
     issueDetails := Present (details0\<lparr>issueDate := Timestamp t, dueDate := Null\<rparr>)\<rparr>"

text \<open>
  A zone five hours behind UTC that moves its clocks forward by one hour at 07:00 UTC on
  10 March 2024 (New York); the clock reads 09:00 UTC on 3 March 2024.
\<close>

definition envSpring :: env where
  "envSpring = env0\<lparr>now := 1709456400000, serverNow := 1709456400123, logTime := 1709456400456,
     localTZA := (\<lambda>t isUTC.
       if isUTC then (if t < 1710054000000 then - 18000000 else - 14400000)
       else (if t < 1710039600000 then - 18000000 else - 14400000))\<rparr>"

text \<open>
  The same zone where it moves its clocks back by one hour at 06:00 UTC on 3 November 2024;
  the clock reads 12:00 UTC on 1 November 2024.
\<close>

definition envFall :: env where
  "envFall = env0\<lparr>now := 1730462400000, serverNow := 1730462400123, logTime := 1730462400456,
     localTZA := (\<lambda>t isUTC.
       if isUTC then (if t < 1730613600000 then - 14400000 else - 18000000)
       else (if t < 1730599200000 then - 14400000 else - 18000000))\<rparr>"

definition form0 :: donationForm where
  "form0 = \<lparr>f_title = ''T2'', f_author = ''A'', f_isbn = ''2'', f_category = ''Other'',
     f_publishedDate = ''2020'', f_description = [], f_coverImageUrl = []\<rparr>"

section \<open>Properties of the shared handler body\<close>

lemmas handler_defs =
  handleRequestIssue_def handleRenewBook_def handleRequestReturn_def handleSubmit_def
  handleApproveRequest_def handleRejectRequest_def handleApproveReturn_def handleRejectReturn_def
  handleApproveDonation_def handleRejectDonation_def handleConfirmIssueBook_def
  handleReturnBook_def handleSaveBook_def handleDeleteBook_def

lemmas store_defs = updateDoc_def deleteDoc_def addBook_def

lemmas sample_defs =
  env0_def alice_def details0_def data0_def donor0_def store0_def book0_def
  requested0_def donation0_def dueOn_def form0_def requestedAt_def envSpring_def envFall_def

lemmas date_defs =
  addDays_def dateOnly_def startOfDay_def localDay_def LocalTime_def UTC_def yearBelow100_def
  msPerDay_def

lemma write_fails:
  "\<not> writeOk e \<Longrightarrow> updateDoc e i f s = Threw"
  "\<not> writeOk e \<Longrightarrow> deleteDoc e i s = Threw"
  "\<not> writeOk e \<Longrightarrow> addBook e d s = Threw"
  by (auto simp: store_defs split: option.splits)

lemma write_keeps_log:
  "updateDoc e i f s = Ok s1 \<Longrightarrow> transactions s1 = transactions s"
  "deleteDoc e i s = Ok s1 \<Longrightarrow> transactions s1 = transactions s"
  "addBook e d s = Ok s1 \<Longrightarrow> transactions s1 = transactions s"
  by (auto simp: store_defs split: option.splits if_splits)

lemma store_logOk:
  "updateDoc (e\<lparr>logOk := x\<rparr>) = updateDoc e"
  "deleteDoc (e\<lparr>logOk := x\<rparr>) = deleteDoc e"
  "addBook (e\<lparr>logOk := x\<rparr>) = addBook e"
  by (auto simp: store_defs fun_eq_iff split: option.splits)

lemma date_logOk:
  "addDays (e\<lparr>logOk := x\<rparr>) = addDays e"
  "dateOnly (e\<lparr>logOk := x\<rparr>) = dateOnly e"
  by (simp_all add: addDays_def dateOnly_def startOfDay_def localDay_def LocalTime_def UTC_def
        fun_eq_iff)

lemma env_logOk:
  "isBookOverdue (e\<lparr>logOk := x\<rparr>) b = isBookOverdue e b"
  "resolveUserName (e\<lparr>logOk := x\<rparr>) i n s = resolveUserName e i n s"
  by (auto simp: isBookOverdue_def date_logOk resolveUserName_def
           split: field.splits option.splits)

lemma logTransaction_frame:
  "books (fst (logTransaction e td s)) = books s"
  "users (fst (logTransaction e td s)) = users s"
  "filter isToast (snd (logTransaction e td s)) = []"
  "filter isWrite (snd (logTransaction e td s)) = []"
  by (auto simp: logTransaction_def addTransaction_def isToast_def isWrite_def)

lemma logTransaction_fails:
  "\<not> logOk e \<Longrightarrow> transactions (fst (logTransaction e td s)) = transactions s"
  by (auto simp: logTransaction_def addTransaction_def)

lemma writeThenLog_Threw:
  "writeThenLog e s Threw wrote td a b c = (s, [ConsoleError a, Toast b Destructive])"
  by (simp add: writeThenLog_def)

lemma writeThenLog_books:
  "books (fst (writeThenLog e s w wrote td a b c)) =
     (case w of Threw \<Rightarrow> books s | Ok s1 \<Rightarrow> books s1)"
  by (cases w) (simp_all add: writeThenLog_def logTransaction_frame case_prod_beta)

lemma writeThenLog_toasts:
  "filter isToast (snd (writeThenLog e s w wrote td a b c)) =
     (case w of Threw \<Rightarrow> [Toast b Destructive]
      | Ok _ \<Rightarrow> (if isToast wrote then [wrote] else []) @ [Toast c Default])"
  by (cases w) (simp_all add: writeThenLog_def logTransaction_frame case_prod_beta isToast_def)

lemma writeThenLog_log_fails:
  "\<not> logOk e \<Longrightarrow>
   transactions (fst (writeThenLog e s w wrote td a b c)) =
     (case w of Threw \<Rightarrow> transactions s | Ok s1 \<Rightarrow> transactions s1)"
  by (cases w) (simp_all add: writeThenLog_def logTransaction_fails case_prod_beta)

lemma writeThenLog_unchanged:
  "isWrite wrote \<Longrightarrow>
   list_all (\<lambda>ev. \<not> isWrite ev) (snd (writeThenLog e s w wrote td a b c)) \<Longrightarrow>
   fst (writeThenLog e s w wrote td a b c) = s"
  by (cases w) (simp_all add: writeThenLog_def case_prod_beta)

lemma resolveUserName_events:
  "list_all (\<lambda>ev. \<not> isWrite ev \<and> \<not> isLogged ev) (snd (resolveUserName e i n s))"
  by (auto simp: resolveUserName_def isWrite_def isLogged_def split: option.splits)

section \<open>Failure of the write and failure of the log, for every operation\<close>

lemma perform_write_fails:
  assumes "\<not> writeOk e"
  shows "fst (perform e a s) = s \<and>
         list_all (\<lambda>ev. \<not> isWrite ev \<and> \<not> isLogged ev) (snd (perform e a s))"
proof (cases a)
  case (ConfirmIssueBook b i n)
  show ?thesis
    using assms resolveUserName_events [of e i n s]
    by (auto simp: ConfirmIssueBook handleConfirmIssueBook_def write_fails writeThenLog_Threw
          isWrite_def isLogged_def Let_def split: option.splits prod.splits)
qed (use assms in \<open>auto simp: handler_defs write_fails writeThenLog_Threw isWrite_def
       isLogged_def Let_def split: option.splits field.splits dateValue.splits prod.splits\<close>)

lemma perform_unchanged:
  "list_all (\<lambda>ev. \<not> isWrite ev) (snd (perform e a s)) \<Longrightarrow> fst (perform e a s) = s"
  by (cases a)
     (auto simp: handler_defs writeThenLog_unchanged isWrite_def Let_def case_prod_beta
           split: option.splits field.splits dateValue.splits result.splits)

lemma perform_books_logOk:
  "books (fst (perform (e\<lparr>logOk := x\<rparr>) a s)) = books (fst (perform e a s))"
  by (cases a)
     (simp_all add: handler_defs writeThenLog_books store_logOk env_logOk date_logOk Let_def case_prod_beta
           split: option.splits field.splits dateValue.splits result.splits)

lemma perform_toasts_logOk:
  "filter isToast (snd (perform (e\<lparr>logOk := x\<rparr>) a s)) = filter isToast (snd (perform e a s))"
  by (cases a)
     (simp_all add: handler_defs writeThenLog_toasts store_logOk env_logOk date_logOk Let_def case_prod_beta
           split: option.splits field.splits dateValue.splits result.splits)

lemma perform_log_fails:
  "\<not> logOk e \<Longrightarrow> transactions (fst (perform e a s)) = transactions s"
  by (cases a)
     (auto simp: handler_defs writeThenLog_log_fails write_keeps_log Let_def case_prod_beta
           split: option.splits field.splits dateValue.splits result.splits)

lemma logTransaction_no_failure_toast:
  "\<not> list_ex isFailureToast (snd (logTransaction e td s))"
  by (auto simp: logTransaction_def addTransaction_def isFailureToast_def)

lemma writeThenLog_log_warns:
  "\<not> logOk e \<Longrightarrow> dbReady e \<Longrightarrow> isWrite wrote \<Longrightarrow>
   list_ex isWrite (snd (writeThenLog e s w wrote td a b c)) \<Longrightarrow>
   ConsoleError ''Error logging transaction:'' \<in> set (snd (writeThenLog e s w wrote td a b c))"
  by (cases w) (simp_all add: writeThenLog_def logTransaction_def addTransaction_def isWrite_def)

lemma writeThenLog_no_failure_toast:
  "isWrite wrote \<Longrightarrow> list_ex isWrite (snd (writeThenLog e s w wrote td a b c)) \<Longrightarrow>
   \<not> list_ex isFailureToast (snd (writeThenLog e s w wrote td a b c))"
  using logTransaction_no_failure_toast [of e td]
  by (cases w)
     (auto simp: writeThenLog_def isWrite_def isFailureToast_def case_prod_beta
           split: event.splits)

lemma resolveUserName_no_failure:
  "\<not> list_ex isFailureToast (snd (resolveUserName e i n s))"
  "\<not> list_ex isWrite (snd (resolveUserName e i n s))"
  by (auto simp: resolveUserName_def isFailureToast_def isWrite_def split: option.splits)

lemma perform_log_warns:
  assumes "\<not> logOk e" "logsTransaction a" "list_ex isWrite (snd (perform e a s))"
  shows "ConsoleError ''Error logging transaction:'' \<in> set (snd (perform e a s))"
proof (cases a)
  case (ConfirmIssueBook b i n)
  then show ?thesis
    using assms resolveUserName_no_failure(2) [of e i n s]
    by (auto simp: handleConfirmIssueBook_def Let_def case_prod_beta isWrite_def
          intro: writeThenLog_log_warns split: option.splits if_splits)
qed (use assms in \<open>auto simp: handler_defs Let_def case_prod_beta isWrite_def
       intro!: writeThenLog_log_warns
       split: option.splits field.splits dateValue.splits if_splits\<close>)

lemma perform_no_failure_toast:
  assumes "list_ex isWrite (snd (perform e a s))"
  shows "\<not> list_ex isFailureToast (snd (perform e a s))"
proof (cases a)
  case (ConfirmIssueBook b i n)
  then show ?thesis
    using assms resolveUserName_no_failure [of e i n s]
    by (auto simp: handleConfirmIssueBook_def Let_def case_prod_beta isWrite_def
          isFailureToast_def dest: writeThenLog_no_failure_toast[rotated]
          split: option.splits if_splits)
qed (use assms in \<open>auto simp: handler_defs Let_def case_prod_beta isWrite_def isFailureToast_def
       dest: writeThenLog_no_failure_toast[rotated]
       split: option.splits field.splits dateValue.splits result.splits if_splits\<close>)

text \<open>
  Claim C7. For every operation \<open>a\<close> of the two portals, from every store \<open>s\<close>:

  \<^item> if the write to \<open>books\<close> fails, the store is left exactly as it was (no book changed, no
    transaction appended) and the handler records neither a write nor a log entry; more
    generally the store changes only if the handler's write completed;
  \<^item> if the append to \<open>transactions\<close> fails, the books are those of the run in which the
    append succeeds (the effect of the write stands, nothing is rolled back), no
    transaction is appended, the user sees the same toasts as in that run, and whenever
    the write completed no destructive toast is shown and the failure is reported on the
    console only.
\<close>

theorem failed_write_changes_nothing_failed_log_is_swallowed:
  "(\<not> writeOk e \<longrightarrow>
      fst (perform e a s) = s \<and>
      list_all (\<lambda>ev. \<not> isWrite ev \<and> \<not> isLogged ev) (snd (perform e a s)))
   \<and> (list_all (\<lambda>ev. \<not> isWrite ev) (snd (perform e a s)) \<longrightarrow> fst (perform e a s) = s)
   \<and> (\<not> logOk e \<longrightarrow>
        books (fst (perform e a s)) = books (fst (perform (e\<lparr>logOk := True\<rparr>) a s))
      \<and> transactions (fst (perform e a s)) = transactions s
      \<and> filter isToast (snd (perform e a s)) =
          filter isToast (snd (perform (e\<lparr>logOk := True\<rparr>) a s))
      \<and> (list_ex isWrite (snd (perform e a s)) \<longrightarrow>
            \<not> list_ex isFailureToast (snd (perform e a s))
          \<and> (logsTransaction a \<longrightarrow>
                ConsoleError ''Error logging transaction:'' \<in> set (snd (perform e a s)))))"
  using perform_write_fails [of e a s] perform_unchanged [of e a s]
    perform_books_logOk [where e = e and x = True and a = a and s = s]
    perform_toasts_logOk [where e = e and x = True and a = a and s = s]
    perform_log_fails [of e a s] perform_no_failure_toast [of e a s]
    perform_log_warns [of e a s]
  by simp

theorem failed_write_changes_nothing_failed_log_is_swallowed_witness:
  "\<not> writeOk (env0\<lparr>writeOk := False\<rparr>)
   \<and> perform (env0\<lparr>writeOk := False\<rparr>) (RequestReturn (Some alice) ''b1'' ''T'') (store0 data0)
       = (store0 data0,
          [ConsoleError ''Error requesting book return:'', Toast ''Request Failed'' Destructive])
   \<and> \<not> logOk (env0\<lparr>logOk := False\<rparr>)
   \<and> perform (env0\<lparr>logOk := False\<rparr>) (RequestReturn (Some alice) ''b1'' ''T'') (store0 data0)
       = (store0 (data0\<lparr>status := return_requested\<rparr>),
          [BookUpdated ''b1'', ConsoleError ''Error logging transaction:'',
           Toast ''Return Requested'' Default])
   \<and> books (fst (perform (env0\<lparr>logOk := False\<rparr>) (RequestReturn (Some alice) ''b1'' ''T'')
         (store0 data0)))
       = books (fst (perform (env0\<lparr>logOk := False, logOk := True\<rparr>)
           (RequestReturn (Some alice) ''b1'' ''T'') (store0 data0)))"
  using failed_write_changes_nothing_failed_log_is_swallowed
      [of "env0\<lparr>writeOk := False\<rparr>" "RequestReturn (Some alice) ''b1'' ''T''" "store0 data0"]
    failed_write_changes_nothing_failed_log_is_swallowed
      [of "env0\<lparr>logOk := False\<rparr>" "RequestReturn (Some alice) ''b1'' ''T''" "store0 data0"]
  by (simp add: sample_defs handleRequestReturn_def writeThenLog_def updateDoc_def
        logTransaction_def addTransaction_def orElse_def isWrite_def isLogged_def)

section \<open>Renewal (IssuedBooksTab.tsx)\<close>

text \<open>Whenever the renewal writes, the due date it stores is the server time of the write.\<close>

lemma renewal_always_stores_the_server_time:
  assumes "BookUpdated i \<in> set (snd (handleRenewBook e cu bs i t s))"
  shows "map_option dueDateOf (storedBook (fst (handleRenewBook e cu bs i t s)) i)
           = Some (Timestamp (serverNow e))"
  using assms
  by (auto simp: handleRenewBook_def writeThenLog_def updateDoc_def logTransaction_def
        addTransaction_def storedBook_def dueDateOf_def setIssueDetailsDueDate_def Let_def
        split: option.splits if_splits field.splits)

text \<open>
  Claim C1. A book that is not overdue and has a due date is renewed: the handler computes
  the current due date plus 7 days and records it in the \<open>renewal\<close> transaction, but the
  value it writes to \<open>issueDetails.dueDate\<close> is \<open>serverTimestamp()\<close>. For the book due on
  day 10 and renewed on day 5, the log says day 17 and the stored due date is the time of
  the renewal on day 5.
\<close>

theorem renewal_stores_the_server_time:
  "\<not> isBookOverdue env0 (book0 data0)
   \<and> getStatusDetails env0 (book0 data0) = v_issued
   \<and> dueDateOf (book0 data0) = IsoString 864000000
   \<and> map_option dueDateOf
        (storedBook (fst (handleRenewBook env0 (Some alice) [book0 data0] ''b1'' ''T'' (store0 data0))) ''b1'')
       = Some (Timestamp 432000123)
   \<and> map (txDueDate \<circ> entry)
        (transactions (fst (handleRenewBook env0 (Some alice) [book0 data0] ''b1'' ''T'' (store0 data0))))
       = [Some 1468800000]
   \<and> addDays env0 864000000 RENEWAL_PERIOD_DAYS = 1468800000
   \<and> serverNow env0 = 432000123"
  by (simp add: sample_defs storedBook_def dueDateOf_def handleRenewBook_def isBookOverdue_def
        getStatusDetails_def newDate_def ceilDays_def toDateOrParse_def date_defs
        writeThenLog_def updateDoc_def logTransaction_def addTransaction_def
        setIssueDetailsDueDate_def RENEWAL_PERIOD_DAYS_def orElse_def)

text \<open>
  Claim C6. When the book found in the screen's list is overdue by \<open>isBookOverdue\<close>, the
  renewal handler returns before any write: the store is unchanged (the stored due date
  and the transaction log with it) and the only effect is one destructive toast.
\<close>

theorem overdue_renewal_is_refused:
  assumes "find (\<lambda>b. book_id b = i) userBooks = Some b"
    and "isBookOverdue e b"
  shows "handleRenewBook e currentUser userBooks i t s =
           (s, [Toast (if currentUser = None \<or> \<not> dbReady e then ''Error''
                       else ''Renewal Not Allowed'') Destructive])"
  using assms
  by (auto simp: handleRenewBook_def isBookOverdue_def dueDateOf_def
           split: option.splits field.splits)

theorem overdue_renewal_is_refused_witness:
  "find (\<lambda>b. book_id b = ''b1'') [book0 data0] = Some (book0 data0)
   \<and> isBookOverdue (env0\<lparr>now := 950400000\<rparr>) (book0 data0)
   \<and> handleRenewBook (env0\<lparr>now := 950400000\<rparr>) (Some alice) [book0 data0] ''b1'' ''T'' (store0 data0)
        = (store0 data0, [Toast ''Renewal Not Allowed'' Destructive])"
proof -
  have f: "find (\<lambda>b. book_id b = ''b1'') [book0 data0] = Some (book0 data0)"
    by (simp add: book0_def)
  have o: "isBookOverdue (env0\<lparr>now := 950400000\<rparr>) (book0 data0)"
    by (simp add: isBookOverdue_def sample_defs toDateOrParse_def date_defs)
  show ?thesis
    using f o overdue_renewal_is_refused [OF f o, of "Some alice" "''T''" "store0 data0"]
    by (simp add: env0_def)
qed

section \<open>Issue requests (BrowseBooksTab.tsx, IssueRequestsTab.tsx)\<close>

text \<open>
  Claim C10. With a logged-in user and every call succeeding, the request-issue handler
  overwrites the stored book whatever its status: it sets the status to
  \<open>issue_requested\<close> and \<open>issueDetails\<close> to the user's id and name, the server time as
  \<open>issueDate\<close> and a null \<open>dueDate\<close>, and appends one \<open>issue_request\<close> transaction. The
  only test of the status is the \<open>disabled\<close> attribute of the button.
\<close>

theorem request_issue_writes_whatever_the_status:
  assumes "dbReady e" and "writeOk e" and "logOk e"
    and "books s i = Some d"
  shows "handleRequestIssue e (Some u) i t s =
           (s\<lparr>books := (books s)(i \<mapsto> d\<lparr>status := issue_requested,
                 issueDetails := Present
                   \<lparr>userId = Some (user_id u),
                    userName = Some (orElse (name u) (orElse (email u) ''User'')),
                    issueDate = Timestamp (serverNow e), dueDate = Null,
                    returnedDate = None\<rparr>\<rparr>),
              transactions := transactions s @
                [\<lparr>entry = \<lparr>bookId = i, bookTitle = t, actorId = Some (user_id u),
                     actorName = Some (orElse (name u) (orElse (email u) ''User'')),
                     txType = issue_request, txDueDate = None, txNotes = None\<rparr>,
                  timestamp = logTime e\<rparr>]\<rparr>,
            [BookUpdated i,
             TransactionAdded
               \<lparr>entry = \<lparr>bookId = i, bookTitle = t, actorId = Some (user_id u),
                     actorName = Some (orElse (name u) (orElse (email u) ''User'')),
                     txType = issue_request, txDueDate = None, txNotes = None\<rparr>,
                  timestamp = logTime e\<rparr>,
             Toast ''Request Sent!'' Default])
         \<and> (requestIssueDisabled (Some u) \<lparr>book_id = i, data = d\<rparr> \<longleftrightarrow>
               status d \<notin> {available, donated_approved})"
  using assms
  by (auto simp: handleRequestIssue_def writeThenLog_def updateDoc_def logTransaction_def
        addTransaction_def requestIssueDisabled_def Let_def)

theorem request_issue_writes_whatever_the_status_witness:
  "dbReady env0 \<and> writeOk env0 \<and> logOk env0 \<and> books (store0 data0) ''b1'' = Some data0
   \<and> status data0 = issued
   \<and> requestIssueDisabled (Some alice) \<lparr>book_id = ''b1'', data = data0\<rparr>
   \<and> books (fst (handleRequestIssue env0 (Some alice) ''b1'' ''T'' (store0 data0))) ''b1'' =
        Some (data0\<lparr>status := issue_requested,
                 issueDetails := Present
                   \<lparr>userId = Some ''u1'', userName = Some ''Alice'',
                    issueDate = Timestamp 432000123, dueDate = Null, returnedDate = None\<rparr>\<rparr>)
   \<and> map (txType \<circ> entry) (transactions (fst (handleRequestIssue env0 (Some alice) ''b1'' ''T'' (store0 data0))))
        = [issue_request]"
proof -
  have h: "dbReady env0" "writeOk env0" "logOk env0" "books (store0 data0) ''b1'' = Some data0"
    by (simp_all add: sample_defs)
  show ?thesis
    using h request_issue_writes_whatever_the_status [OF h, of alice "''T''"]
    by (simp add: sample_defs orElse_def)
qed



lemma addDays_across_a_clock_change:
  "addDays envSpring 1709294400000 14 = 1710500400000
   \<and> 1709294400000 + 14 * msPerDay = 1710504000000"
  by (simp add: sample_defs date_defs)



text \<open>Whenever the rejection of an issue request writes, it stores \<open>issueDetails: null\<close>.\<close>

lemma reject_request_always_writes_null:
  assumes "BookUpdated (book_id b) \<in> set (snd (handleRejectRequest e b s))"
  shows "map_option issueDetails (books (fst (handleRejectRequest e b s)) (book_id b))
           = Some NullField"
  using assms
  by (auto simp: handleRejectRequest_def writeThenLog_def updateDoc_def logTransaction_def
        addTransaction_def split: option.splits if_splits field.splits)

text \<open>
  Claim C5. Rejecting an issue request sets the status to \<open>available\<close> and writes
  \<open>issueDetails: null\<close>: the field stays in the document with the value null, where
  approving a return and marking a book returned delete the field.
\<close>

theorem reject_request_leaves_issueDetails_null:
  "map_option issueDetails
     (books (fst (handleRejectRequest env0 (book0 requested0) (store0 requested0))) ''b1'')
     = Some NullField
   \<and> map_option status
     (books (fst (handleRejectRequest env0 (book0 requested0) (store0 requested0))) ''b1'')
     = Some available
   \<and> map_option issueDetails
     (books (fst (handleApproveReturn env0 (book0 (data0\<lparr>status := return_requested\<rparr>))
        (store0 (data0\<lparr>status := return_requested\<rparr>)))) ''b1'')
     = Some Absent
   \<and> map_option issueDetails
     (books (fst (handleReturnBook env0 (book0 data0) (store0 data0))) ''b1'')
     = Some Absent"
  by (simp add: sample_defs handleRejectRequest_def handleApproveReturn_def handleReturnBook_def
        writeThenLog_books updateDoc_def)

section \<open>Return requests (ReturnRequestsTab.tsx)\<close>

text \<open>
  Claim C8. When an admin rejects the return of a book whose copy on the screen has
  \<open>issueDetails\<close>, and every call succeeds, the stored book changes in its status only,
  which becomes \<open>issued\<close> (its \<open>issueDetails\<close> and every other field are the stored ones),
  no other document changes, and one \<open>return_reject\<close> transaction is appended.
\<close>

theorem reject_return_keeps_issue_details:
  assumes "dbReady e" and "writeOk e"
    and "issueDetails (data b) = Present r"
    and "books s (book_id b) = Some d"
    and "logOk e"
    and "ignoreUndefinedProperties e \<or> (userId r \<noteq> None \<and> userName r \<noteq> None)"
  shows "handleRejectReturn e b s =
           (s\<lparr>books := (books s)(book_id b \<mapsto> d\<lparr>status := issued\<rparr>),
              transactions := transactions s @
                [\<lparr>entry = \<lparr>bookId = book_id b, bookTitle = title (data b),
                     actorId = userId r, actorName = userName r, txType = return_reject,
                     txDueDate = None,
                     txNotes = Some ''Return request rejected by Admin: Library Admin''\<rparr>,
                  timestamp = logTime e\<rparr>]\<rparr>,
            [BookUpdated (book_id b),
             TransactionAdded
               \<lparr>entry = \<lparr>bookId = book_id b, bookTitle = title (data b),
                     actorId = userId r, actorName = userName r, txType = return_reject,
                     txDueDate = None,
                     txNotes = Some ''Return request rejected by Admin: Library Admin''\<rparr>,
                  timestamp = logTime e\<rparr>,
             Toast ''Return Rejected'' Default])
         \<and> map_option status (books (fst (handleRejectReturn e b s)) (book_id b)) = Some issued
         \<and> map_option issueDetails (books (fst (handleRejectReturn e b s)) (book_id b))
             = Some (issueDetails d)
         \<and> map_option (\<lambda>d'. d'\<lparr>status := status d\<rparr>)
               (books (fst (handleRejectReturn e b s)) (book_id b)) = Some d"
  using assms
  by (auto simp: handleRejectReturn_def writeThenLog_def updateDoc_def logTransaction_def
        addTransaction_def adminName_def sampleAdmin_def orElse_def)

theorem reject_return_keeps_issue_details_witness:
  "handleRejectReturn env0 (book0 (data0\<lparr>status := return_requested\<rparr>))
       (store0 (data0\<lparr>status := return_requested\<rparr>)) =
     (\<lparr>books = [''b1'' \<mapsto> data0],
       transactions =
         [\<lparr>entry = \<lparr>bookId = ''b1'', bookTitle = ''T'', actorId = Some ''u1'',
              actorName = Some ''Alice'', txType = return_reject, txDueDate = None,
              txNotes = Some ''Return request rejected by Admin: Library Admin''\<rparr>,
           timestamp = 432000456\<rparr>],
       users = Map.empty\<rparr>,
      [BookUpdated ''b1'',
       TransactionAdded
         \<lparr>entry = \<lparr>bookId = ''b1'', bookTitle = ''T'', actorId = Some ''u1'',
              actorName = Some ''Alice'', txType = return_reject, txDueDate = None,
              txNotes = Some ''Return request rejected by Admin: Library Admin''\<rparr>,
           timestamp = 432000456\<rparr>,
       Toast ''Return Rejected'' Default])"
proof -
  have h: "dbReady env0" "writeOk env0"
    "issueDetails (data (book0 (data0\<lparr>status := return_requested\<rparr>))) = Present details0"
    "books (store0 (data0\<lparr>status := return_requested\<rparr>))
       (book_id (book0 (data0\<lparr>status := return_requested\<rparr>)))
       = Some (data0\<lparr>status := return_requested\<rparr>)"
    "logOk env0"
    "ignoreUndefinedProperties env0 \<or> (userId details0 \<noteq> None \<and> userName details0 \<noteq> None)"
    by (simp_all add: sample_defs)
  show ?thesis
    using reject_return_keeps_issue_details [OF h]
    by (simp add: sample_defs)
qed

section \<open>Donations (DonationApprovalTab.tsx, DonateBookTab.tsx)\<close>

text \<open>
  Claim C4, as stated, fails in its order: the handler deletes the book first and appends
  the \<open>donate_reject\<close> transaction afterwards, and when the deletion fails it appends
  nothing.
\<close>

theorem reject_donation_log_is_written_after_the_deletion:
  "handleRejectDonation env0 (book0 donation0) (store0 donation0) =
     (\<lparr>books = Map.empty,
       transactions =
         [\<lparr>entry = \<lparr>bookId = ''b1'', bookTitle = ''T'', actorId = Some ''u1'',
              actorName = Some ''Alice'', txType = donate_reject, txDueDate = None,
              txNotes = Some ''Donation rejected by Admin: Library Admin''\<rparr>,
           timestamp = 432000456\<rparr>],
       users = Map.empty\<rparr>,
      [BookDeleted ''b1'',
       TransactionAdded
         \<lparr>entry = \<lparr>bookId = ''b1'', bookTitle = ''T'', actorId = Some ''u1'',
              actorName = Some ''Alice'', txType = donate_reject, txDueDate = None,
              txNotes = Some ''Donation rejected by Admin: Library Admin''\<rparr>,
           timestamp = 432000456\<rparr>,
       Toast ''Donation Rejected'' Default])
   \<and> handleRejectDonation (env0\<lparr>writeOk := False\<rparr>) (book0 donation0) (store0 donation0) =
       (store0 donation0,
        [ConsoleError ''Error rejecting donation:'', Toast ''Error Rejecting Donation'' Destructive])"
  by (simp add: sample_defs handleRejectDonation_def writeThenLog_def deleteDoc_def
        logTransaction_def addTransaction_def donorIdOf_def donorNameOf_def orElse_def
        adminName_def sampleAdmin_def)

text \<open>
  Claim C4, amended. When an admin rejects a pending donation and both calls succeed, the
  book is deleted and then one \<open>donate_reject\<close> transaction that carries the id of the
  deleted book is appended, in this order; when the deletion fails nothing is appended
  and the store is unchanged.
\<close>

theorem reject_donation_deletes_then_logs:
  assumes "dbReady e"
  shows "(writeOk e \<and> logOk e \<longrightarrow>
           handleRejectDonation e b s =
             (s\<lparr>books := (books s)(book_id b := None),
                transactions := transactions s @
                  [\<lparr>entry = \<lparr>bookId = book_id b, bookTitle = title (data b),
                       actorId = Some (donorIdOf b), actorName = Some (donorNameOf b),
                       txType = donate_reject, txDueDate = None,
                       txNotes = Some ''Donation rejected by Admin: Library Admin''\<rparr>,
                    timestamp = logTime e\<rparr>]\<rparr>,
              [BookDeleted (book_id b),
               TransactionAdded
                 \<lparr>entry = \<lparr>bookId = book_id b, bookTitle = title (data b),
                       actorId = Some (donorIdOf b), actorName = Some (donorNameOf b),
                       txType = donate_reject, txDueDate = None,
                       txNotes = Some ''Donation rejected by Admin: Library Admin''\<rparr>,
                    timestamp = logTime e\<rparr>,
               Toast ''Donation Rejected'' Default]))
       \<and> (\<not> writeOk e \<longrightarrow>
           handleRejectDonation e b s =
             (s, [ConsoleError ''Error rejecting donation:'',
                  Toast ''Error Rejecting Donation'' Destructive]))"
  using assms
  by (auto simp: handleRejectDonation_def writeThenLog_def deleteDoc_def logTransaction_def
        addTransaction_def adminName_def sampleAdmin_def orElse_def)

theorem reject_donation_deletes_then_logs_witness:
  "dbReady env0 \<and> writeOk env0 \<and> logOk env0
   \<and> books (fst (handleRejectDonation env0 (book0 donation0) (store0 donation0))) ''b1'' = None
   \<and> map (txType \<circ> entry) (transactions (fst (handleRejectDonation env0 (book0 donation0) (store0 donation0))))
       = [donate_reject]
   \<and> map (bookId \<circ> entry) (transactions (fst (handleRejectDonation env0 (book0 donation0) (store0 donation0))))
       = [''b1'']
   \<and> \<not> writeOk (env0\<lparr>writeOk := False\<rparr>)
   \<and> fst (handleRejectDonation (env0\<lparr>writeOk := False\<rparr>) (book0 donation0) (store0 donation0))
       = store0 donation0"
proof -
  have h: "dbReady env0" "dbReady (env0\<lparr>writeOk := False\<rparr>)"
    by (simp_all add: sample_defs)
  show ?thesis
    using reject_donation_deletes_then_logs [OF h(1), of "book0 donation0" "store0 donation0"]
      reject_donation_deletes_then_logs [OF h(2), of "book0 donation0" "store0 donation0"]
    by (simp add: sample_defs)
qed

lemma updateDoc_lookup:
  "books (case updateDoc e j f s of Threw \<Rightarrow> s | Ok s1 \<Rightarrow> s1) i =
     (if i = j \<and> writeOk e then map_option f (books s j) else books s i)"
  by (auto simp: updateDoc_def split: option.splits)

lemma deleteDoc_lookup:
  "books (case deleteDoc e j s of Threw \<Rightarrow> s | Ok s1 \<Rightarrow> s1) i =
     (if i = j \<and> writeOk e then None else books s i)"
  by (auto simp: deleteDoc_def)

lemma addBook_lookup:
  "books (case addBook e d s of Threw \<Rightarrow> s | Ok s1 \<Rightarrow> s1) i =
     (if i = newDocId e \<and> writeOk e then Some d else books s i)"
  by (auto simp: addBook_def)

lemma writeThenLog_lookup:
  "books (fst (writeThenLog e s w wrote td a b c)) = books (case w of Threw \<Rightarrow> s | Ok s1 \<Rightarrow> s1)"
  by (cases w) (simp_all add: writeThenLog_books)

lemma setIssueDetailsDueDate_donatedBy [simp]:
  "donatedBy (setIssueDetailsDueDate v d) = donatedBy d"
  by (simp add: setIssueDetailsDueDate_def)

lemma handleRequestIssue_keeps_donatedBy:
  "books s i = Some d \<Longrightarrow>
   books (fst (handleRequestIssue e cu j t s)) i = Some d' \<Longrightarrow>
   donatedBy d' = donatedBy d"
  by (auto simp: handleRequestIssue_def writeThenLog_lookup updateDoc_lookup Let_def
        split: option.splits if_splits)

lemma handleRenewBook_keeps_donatedBy:
  "books s i = Some d \<Longrightarrow>
   books (fst (handleRenewBook e cu bs j t s)) i = Some d' \<Longrightarrow>
   donatedBy d' = donatedBy d"
  by (auto simp: handleRenewBook_def writeThenLog_lookup updateDoc_lookup Let_def
        split: option.splits if_splits)

lemma handleRequestReturn_keeps_donatedBy:
  "books s i = Some d \<Longrightarrow>
   books (fst (handleRequestReturn e cu j t s)) i = Some d' \<Longrightarrow>
   donatedBy d' = donatedBy d"
  by (auto simp: handleRequestReturn_def writeThenLog_lookup updateDoc_lookup Let_def
        split: option.splits if_splits)

lemma handleSubmit_keeps_donatedBy:
  "newDocId e \<notin> dom (books s) \<Longrightarrow>
   books s i = Some d \<Longrightarrow>
   books (fst (handleSubmit e cu f s)) i = Some d' \<Longrightarrow>
   donatedBy d' = donatedBy d"
  by (auto simp: handleSubmit_def writeThenLog_lookup addBook_lookup Let_def
        split: option.splits if_splits)

lemma handleApproveRequest_keeps_donatedBy:
  "books s i = Some d \<Longrightarrow>
   books (fst (handleApproveRequest e b s)) i = Some d' \<Longrightarrow>
   donatedBy d' = donatedBy d"
  by (auto simp: handleApproveRequest_def writeThenLog_lookup updateDoc_lookup Let_def
        split: option.splits if_splits field.splits dateValue.splits)

lemma handleRejectRequest_keeps_donatedBy:
  "books s i = Some d \<Longrightarrow>
   books (fst (handleRejectRequest e b s)) i = Some d' \<Longrightarrow>
   donatedBy d' = donatedBy d"
  by (auto simp: handleRejectRequest_def writeThenLog_lookup updateDoc_lookup Let_def
        split: option.splits if_splits field.splits)

lemma handleApproveReturn_keeps_donatedBy:
  "books s i = Some d \<Longrightarrow>
   books (fst (handleApproveReturn e b s)) i = Some d' \<Longrightarrow>
   donatedBy d' = donatedBy d"
  by (auto simp: handleApproveReturn_def writeThenLog_lookup updateDoc_lookup Let_def
        split: option.splits if_splits field.splits)

lemma handleRejectReturn_keeps_donatedBy:
  "books s i = Some d \<Longrightarrow>
   books (fst (handleRejectReturn e b s)) i = Some d' \<Longrightarrow>
   donatedBy d' = donatedBy d"
  by (auto simp: handleRejectReturn_def writeThenLog_lookup updateDoc_lookup Let_def
        split: option.splits if_splits field.splits)

lemma handleApproveDonation_keeps_donatedBy:
  "books s i = Some d \<Longrightarrow>
   books (fst (handleApproveDonation e b s)) i = Some d' \<Longrightarrow>
   donatedBy d' = donatedBy d"
  by (auto simp: handleApproveDonation_def writeThenLog_lookup updateDoc_lookup Let_def
        split: option.splits if_splits)

lemma handleRejectDonation_keeps_donatedBy:
  "books s i = Some d \<Longrightarrow>
   books (fst (handleRejectDonation e b s)) i = Some d' \<Longrightarrow>
   donatedBy d' = donatedBy d"
  by (auto simp: handleRejectDonation_def writeThenLog_lookup deleteDoc_lookup Let_def
        split: option.splits if_splits)

lemma handleConfirmIssueBook_keeps_donatedBy:
  "books s i = Some d \<Longrightarrow>
   books (fst (handleConfirmIssueBook e b j n s)) i = Some d' \<Longrightarrow>
   donatedBy d' = donatedBy d"
  by (auto simp: handleConfirmIssueBook_def writeThenLog_lookup updateDoc_lookup Let_def case_prod_beta
        split: option.splits if_splits)

lemma handleReturnBook_keeps_donatedBy:
  "books s i = Some d \<Longrightarrow>
   books (fst (handleReturnBook e b s)) i = Some d' \<Longrightarrow>
   donatedBy d' = donatedBy d"
  by (auto simp: handleReturnBook_def writeThenLog_lookup updateDoc_lookup Let_def
        split: option.splits if_splits)

lemma handleDeleteBook_keeps_donatedBy:
  "books s i = Some d \<Longrightarrow>
   books (fst (handleDeleteBook e j t s)) i = Some d' \<Longrightarrow>
   donatedBy d' = donatedBy d"
  by (auto simp: handleDeleteBook_def deleteDoc_def
        split: option.splits if_splits)

lemma mergeFields_donatedBy:
  "donatedBy (mergeFields u d) = keep (donatedBy u) (donatedBy d)"
  by (simp add: mergeFields_def)

lemma handleSaveBook_keeps_donatedBy:
  "newDocId e \<notin> dom (books s) \<Longrightarrow>
   books s i = Some d \<Longrightarrow>
   books (fst (handleSaveBook e x s)) i = Some d' \<Longrightarrow>
   donatedBy d' = donatedBy d \<or> (donatedBy (fd_data x) \<noteq> None \<and> donatedBy d' = donatedBy (fd_data x))"
  by (auto simp: handleSaveBook_def updateDoc_def addBook_def mergeFields_donatedBy keep_def
        split: option.splits if_splits)

lemma perform_keeps_donatedBy:
  assumes "newDocId e \<notin> dom (books s)"
    and "books s i = Some d"
    and "books (fst (perform e a s)) i = Some d'"
  shows "donatedBy d' = donatedBy d \<or>
         (\<exists>x. a = SaveBook x \<and> donatedBy (fd_data x) \<noteq> None \<and> donatedBy d' = donatedBy (fd_data x))"
proof (cases a)
  case (SubmitDonation cu f)
  then show ?thesis using assms handleSubmit_keeps_donatedBy by auto
next
  case (SaveBook x)
  then show ?thesis using assms handleSaveBook_keeps_donatedBy [of e s i d x d'] by auto
qed (use assms in \<open>auto dest: handleRequestIssue_keeps_donatedBy handleRenewBook_keeps_donatedBy handleRequestReturn_keeps_donatedBy handleApproveRequest_keeps_donatedBy handleRejectRequest_keeps_donatedBy handleApproveReturn_keeps_donatedBy handleRejectReturn_keeps_donatedBy handleApproveDonation_keeps_donatedBy handleRejectDonation_keeps_donatedBy handleConfirmIssueBook_keeps_donatedBy handleReturnBook_keeps_donatedBy handleDeleteBook_keeps_donatedBy\<close>)


text \<open>
  Claim C9. Approving a pending donation changes the status of the stored book to
  \<open>available\<close> and nothing else (\<open>donatedBy\<close> is kept), and appends one \<open>donate_approve\<close>
  transaction. \<open>donatedBy\<close> is set by the donation form, and no operation of the two
  portals clears it: a book that exists before and after an operation has the same
  \<open>donatedBy\<close>, except that the catalogue edit can replace it with the donor carried by the
  edited data. (The id that \<open>addDoc\<close> generates is taken to be new.)
\<close>

theorem donation_approval_changes_status_only_and_donor_is_never_cleared:
  "(dbReady e \<and> writeOk e \<and> books s (book_id b) = Some d \<longrightarrow>
      books (fst (handleApproveDonation e b s)) = (books s)(book_id b \<mapsto> d\<lparr>status := available\<rparr>)
      \<and> donatedBy (d\<lparr>status := available\<rparr>) = donatedBy d
      \<and> (logOk e \<longrightarrow>
            map (txType \<circ> entry) (transactions (fst (handleApproveDonation e b s))) =
              map (txType \<circ> entry) (transactions s) @ [donate_approve]))
   \<and> (dbReady e \<and> writeOk e \<longrightarrow>
        map_option (\<lambda>d. (status d, donatedBy d)) (books (fst (handleSubmit e (Some u) form s)) (newDocId e)) =
          Some (donated_pending_approval,
                Some \<lparr>donorId = user_id u,
                      donorName = orElse (name u) (orElse (email u) ''Anonymous User''),
                      date = Timestamp (serverNow e)\<rparr>))
   \<and> (newDocId e \<notin> dom (books s) \<and> books s i = Some d0 \<and>
        books (fst (perform e a s)) i = Some d1 \<longrightarrow>
          donatedBy d1 = donatedBy d0 \<or>
          (\<exists>x. a = SaveBook x \<and> donatedBy (fd_data x) \<noteq> None \<and>
                donatedBy d1 = donatedBy (fd_data x)))"
proof (intro conjI impI)
  assume h: "dbReady e \<and> writeOk e \<and> books s (book_id b) = Some d"
  then show "books (fst (handleApproveDonation e b s)) = (books s)(book_id b \<mapsto> d\<lparr>status := available\<rparr>)"
    by (simp add: handleApproveDonation_def writeThenLog_books updateDoc_def)
  show "donatedBy (d\<lparr>status := available\<rparr>) = donatedBy d" by simp
  assume "logOk e"
  with h show "map (txType \<circ> entry) (transactions (fst (handleApproveDonation e b s))) =
              map (txType \<circ> entry) (transactions s) @ [donate_approve]"
    by (simp add: handleApproveDonation_def writeThenLog_def updateDoc_def logTransaction_def
          addTransaction_def)
next
  assume "dbReady e \<and> writeOk e"
  then show "map_option (\<lambda>d. (status d, donatedBy d)) (books (fst (handleSubmit e (Some u) form s)) (newDocId e)) =
          Some (donated_pending_approval,
                Some \<lparr>donorId = user_id u,
                      donorName = orElse (name u) (orElse (email u) ''Anonymous User''),
                      date = Timestamp (serverNow e)\<rparr>)"
    by (simp add: handleSubmit_def writeThenLog_books addBook_def Let_def)
next
  assume "newDocId e \<notin> dom (books s) \<and> books s i = Some d0 \<and>
        books (fst (perform e a s)) i = Some d1"
  then show "donatedBy d1 = donatedBy d0 \<or>
          (\<exists>x. a = SaveBook x \<and> donatedBy (fd_data x) \<noteq> None \<and>
                donatedBy d1 = donatedBy (fd_data x))"
    using perform_keeps_donatedBy [of e s i d0 a d1] by simp
qed

theorem donation_approval_changes_status_only_and_donor_is_never_cleared_witness:
  "books (fst (handleApproveDonation env0 (book0 donation0) (store0 donation0)))
     = [''b1'' \<mapsto> donation0\<lparr>status := available\<rparr>]
   \<and> donatedBy (donation0\<lparr>status := available\<rparr>) = Some donor0
   \<and> map (txType \<circ> entry)
        (transactions (fst (handleApproveDonation env0 (book0 donation0) (store0 donation0))))
       = [donate_approve]
   \<and> map_option (\<lambda>d. (status d, donatedBy d))
        (books (fst (handleSubmit env0 (Some alice) form0 (store0 donation0))) ''b2'')
       = Some (donated_pending_approval,
               Some \<lparr>donorId = ''u1'', donorName = ''Alice'', date = Timestamp 432000123\<rparr>)
   \<and> newDocId env0 \<notin> dom (books (store0 donation0))
   \<and> books (fst (perform env0 (RequestIssue (Some alice) ''b1'' ''T'') (store0 donation0))) ''b1''
       = Some (donation0\<lparr>status := issue_requested, issueDetails := Present
           \<lparr>userId = Some ''u1'', userName = Some ''Alice'', issueDate = Timestamp 432000123,
            dueDate = Null, returnedDate = None\<rparr>\<rparr>)
   \<and> donatedBy (donation0\<lparr>status := issue_requested, issueDetails := Present
           \<lparr>userId = Some ''u1'', userName = Some ''Alice'', issueDate = Timestamp 432000123,
            dueDate = Null, returnedDate = None\<rparr>\<rparr>) = donatedBy donation0"
  using donation_approval_changes_status_only_and_donor_is_never_cleared
    [where e = env0 and s = "store0 donation0" and b = "book0 donation0" and d = donation0
       and u = alice and form = form0 and i = "''b1''" and ?d0.0 = donation0
       and a = "RequestIssue (Some alice) ''b1'' ''T''"
       and ?d1.0 = "donation0\<lparr>status := issue_requested, issueDetails := Present
           \<lparr>userId = Some ''u1'', userName = Some ''Alice'', issueDate = Timestamp 432000123,
            dueDate = Null, returnedDate = None\<rparr>\<rparr>"]
  by (simp add: sample_defs handleApproveDonation_def handleSubmit_def handleRequestIssue_def
        writeThenLog_def updateDoc_def addBook_def logTransaction_def addTransaction_def
        orElse_def donorIdOf_def donorNameOf_def Let_def)

section \<open>Overdue and due-soon classification\<close>

text \<open>IssuedBooksTab: both dates are reduced to their local midnight before they are compared.\<close>

lemma calendar_examples:
  "civilFromDay 0 = (1970, 1, 1)"
  "civilFromDay 19782 = (2024, 2, 29)"
  "civilFromDay (- 719528) = (0, 1, 1)"
  "civilFromDay (- 683004) = (99, 12, 31)"
  "civilFromDay (- 683003) = (100, 1, 1)"
  "MakeDay 1970 1 1 = 0"
  "MakeDay 2024 2 29 = 19782"
  "MakeDay 1900 2 29 = MakeDay 1900 3 1"
  "yearBelow100 (- 719528 * msPerDay)"
  "yearBelow100 (- 683003 * msPerDay - 1)"
  "\<not> yearBelow100 (- 683003 * msPerDay)"
  by code_simp+

text \<open>15 June of the year 50, noon UTC, becomes 15 June 1950, midnight.\<close>

lemma dateOnly_two_digit_year:
  "dateOnly env0 (- 60574996800000) = - 616896000000"
  by code_simp

lemma dateOnly_startOfDay:
  "\<not> yearBelow100 (LocalTime e t) \<Longrightarrow> dateOnly e t = startOfDay e t"
  by (simp add: dateOnly_def)

lemma startOfDay_diff:
  assumes "localTZA e (localDay e a * msPerDay) False = localTZA e (localDay e b * msPerDay) False"
  shows "startOfDay e a - startOfDay e b = (localDay e a - localDay e b) * msPerDay"
  using assms by (simp add: startOfDay_def UTC_def algebra_simps)

lemma ceilDays_multiple: "ceilDays (k * msPerDay) = k"
  by (simp add: ceilDays_def msPerDay_def)

lemma multiple_negative: "k * msPerDay < 0 \<longleftrightarrow> k < 0"
  by (simp add: msPerDay_def mult_less_0_iff)

text \<open>
  Where the two instants are outside the years 0 to 99 and the zone has the same offset at
  the two local midnights, the comparisons of IssuedBooksTab are comparisons of the day
  numbers.
\<close>

lemma issuedBooksTab_classification:
  assumes "issueDetails (data b) = Present r" and "toDateOrParse (dueDate r) = Some due"
    and "\<not> yearBelow100 (LocalTime e due)" and "\<not> yearBelow100 (LocalTime e (now e))"
    and "localTZA e (localDay e due * msPerDay) False =
         localTZA e (localDay e (now e) * msPerDay) False"
  shows "filterBook e True f_overdue b \<longleftrightarrow> localDay e due < localDay e (now e)"
    and "filterBook e True f_due_soon b \<longleftrightarrow>
           0 \<le> localDay e due - localDay e (now e) \<and> localDay e due - localDay e (now e) \<le> 3"
    and "isBookOverdue e b \<longleftrightarrow> status (data b) = issued \<and> localDay e due < localDay e (now e)"
proof -
  have d: "dateOnly e due - startOfDay e (now e) = (localDay e due - localDay e (now e)) * msPerDay"
    "dateOnly e due - dateOnly e (now e) = (localDay e due - localDay e (now e)) * msPerDay"
    using assms(3-5) by (simp_all add: dateOnly_startOfDay startOfDay_diff)
  have less: "dateOnly e due < dateOnly e (now e) \<longleftrightarrow> localDay e due < localDay e (now e)"
    using d(2) multiple_negative [of "localDay e due - localDay e (now e)"] by auto
  show "filterBook e True f_overdue b \<longleftrightarrow> localDay e due < localDay e (now e)"
    using assms(1,2) by (simp add: filterBook_def Let_def d(1) ceilDays_multiple)
  show "filterBook e True f_due_soon b \<longleftrightarrow>
           0 \<le> localDay e due - localDay e (now e) \<and> localDay e due - localDay e (now e) \<le> 3"
    using assms(1,2) by (simp add: filterBook_def Let_def d(1) ceilDays_multiple)
  show "isBookOverdue e b \<longleftrightarrow> status (data b) = issued \<and> localDay e due < localDay e (now e)"
    using assms(1,2) by (simp add: isBookOverdue_def less)
qed

text \<open>
  Across a change of the clocks the list filter counts one day more: on 1 November 2024 in
  New York a book due on 4 November (today + 3) has \<open>diffDays = 4\<close> and is not listed as
  due soon.
\<close>

lemma list_filter_across_a_clock_change:
  "localDay envFall (now envFall) = 20028
   \<and> localDay envFall 1730721600000 = 20028 + 3
   \<and> ceilDays (dateOnly envFall 1730721600000 - startOfDay envFall (now envFall)) = 4
   \<and> \<not> filterBook envFall True f_due_soon (book0 (dueOn 1730721600000))"
  by (simp add: sample_defs date_defs filterBook_def toDateOrParse_def ceilDays_def Let_def)

text \<open>StatusPill on an issued book whose due date is an ISO string.\<close>

lemma ceilDays_negative: "ceilDays x < 0 \<longleftrightarrow> x \<le> - msPerDay"
proof -
  have "0 < (- x) div 86400000 \<longleftrightarrow> 86400000 \<le> - x"
    by (rule pos_imp_zdiv_pos_iff) simp
  moreover have "86400000 \<le> - x \<longleftrightarrow> x \<le> - 86400000" by linarith
  moreover have "- ((- x) div 86400000) < 0 \<longleftrightarrow> 0 < (- x) div 86400000" by linarith
  ultimately show ?thesis unfolding ceilDays_def msPerDay_def by simp
qed

lemma ceilDays_le_3: "ceilDays x \<le> 3 \<longleftrightarrow> x \<le> 3 * msPerDay"
proof -
  have "- 3 \<le> (- x) div 86400000 \<longleftrightarrow> - 3 * 86400000 \<le> - x"
    by linarith
  moreover have "- ((- x) div 86400000) \<le> 3 \<longleftrightarrow> - 3 \<le> (- x) div 86400000" by linarith
  ultimately show ?thesis unfolding ceilDays_def msPerDay_def by simp
qed

lemma statusPill_classification:
  assumes "status (data b) = issued" and "issueDetails (data b) = Present r"
    and "dueDate r = IsoString due"
  shows "getStatusDetails e b =
           (if due - now e \<le> - msPerDay then v_overdue
            else if due - now e \<le> 3 * msPerDay then v_due_soon
            else v_issued)"
  using assms
  by (simp add: getStatusDetails_def newDate_def Let_def ceilDays_negative ceilDays_le_3)

text \<open>
  Claim C3. The list filter and \<open>isBookOverdue\<close> of IssuedBooksTab compare calendar days
  (\<open>issuedBooksTab_classification\<close>), but \<open>getStatusDetails\<close> of StatusPill compares the
  two instants (\<open>statusPill_classification\<close>). At 01:00 on day 5, a book due at 23:00 on day 8 (today + 3) is shown as
  \<open>issued\<close> while the due-soon filter lists it, and a book due at 23:00 on day 4
  (today - 1) is shown as \<open>due_soon\<close> while it is overdue for the renewal handler and for
  the overdue filter.
\<close>

theorem status_pill_compares_instants_not_days:
  "localDay (env0\<lparr>now := 435600000\<rparr>) 435600000 = 5
   \<and> localDay (env0\<lparr>now := 435600000\<rparr>) 774000000 = 5 + 3
   \<and> getStatusDetails (env0\<lparr>now := 435600000\<rparr>) (book0 (dueOn 774000000)) = v_issued
   \<and> filterBook (env0\<lparr>now := 435600000\<rparr>) True f_due_soon (book0 (dueOn 774000000))
   \<and> localDay (env0\<lparr>now := 435600000\<rparr>) 428400000 = 5 - 1
   \<and> getStatusDetails (env0\<lparr>now := 435600000\<rparr>) (book0 (dueOn 428400000)) = v_due_soon
   \<and> isBookOverdue (env0\<lparr>now := 435600000\<rparr>) (book0 (dueOn 428400000))
   \<and> filterBook (env0\<lparr>now := 435600000\<rparr>) True f_overdue (book0 (dueOn 428400000))"
  by (simp add: sample_defs date_defs getStatusDetails_def filterBook_def
        isBookOverdue_def newDate_def toDateOrParse_def ceilDays_def)


end
